theory Spec2Isabelle
  imports Complex_Main
begin

section \<open>Filter presets and the grain amplitude\<close>

text \<open>
  The enum \<open>FilterType\<close> of the type declarations. JavaScript numbers are modelled as
  \<open>real\<close>: the code only adds, multiplies, divides and compares them.
\<close>

datatype FilterType =
  ORIGINAL | RETRO_CLASSIC | RETRO_NOIR | RETRO_INSTANT
  | CINE_TEAL_ORANGE | CINE_MOODY | CINE_VIVID

text \<open>
  \<^verbatim>\<open>const noiseAmount = filterType === FilterType.ORIGINAL ? 0
       : (filterType === FilterType.RETRO_NOIR ? 45 : 25);\<close>
\<close>

definition noiseAmount :: "FilterType \<Rightarrow> real" where
  "noiseAmount filterType =
     (if filterType = ORIGINAL then 0 else (if filterType = RETRO_NOIR then 45 else 25))"

section \<open>The per-pixel grain loop\<close>

text \<open>
  \<open>imageData.data\<close> is a \<open>Uint8ClampedArray\<close>: a store converts the number with
  ECMAScript's \<open>ToUint8Clamp\<close> (clamp to 0..255, round to nearest, ties to even), a store
  past the end is ignored.
\<close>

definition toUint8Clamp :: "real \<Rightarrow> nat" where
  "toUint8Clamp x =
     (if x \<le> 0 then 0
      else if 255 \<le> x then 255
      else (let f = \<lfloor>x\<rfloor> in
            if of_int f + 1 / 2 < x then nat (f + 1)
            else if x < of_int f + 1 / 2 then nat f
            else if even f then nat f
            else nat (f + 1)))"

text \<open>
  One iteration of the loop body for the pixel that starts at byte \<open>i\<close>:
  \<^verbatim>\<open>data[i]   = Math.max(0, Math.min(255, data[i]   + noise));
data[i+1] = Math.max(0, Math.min(255, data[i+1] + noise));
data[i+2] = Math.max(0, Math.min(255, data[i+2] + noise));\<close>
  \<open>xs[j := v]\<close> leaves \<open>xs\<close> as it is when \<open>j\<close> is past the end, as the typed array does.
\<close>

definition grainChannel :: "real \<Rightarrow> nat \<Rightarrow> nat" where
  "grainChannel noise v = toUint8Clamp (max 0 (min 255 (real v + noise)))"

definition grainPixel :: "real \<Rightarrow> nat \<Rightarrow> nat list \<Rightarrow> nat list" where
  "grainPixel noise i data =
     (let data = data[i := grainChannel noise (data ! i)];
          data = data[i + 1 := grainChannel noise (data ! (i + 1))];
          data = data[i + 2 := grainChannel noise (data ! (i + 2))]
      in data)"

text \<open>
  \<^verbatim>\<open>for (let i = 0; i < data.length; i += 4) {
  const noise = (Math.random() - 0.5) * noiseAmount;
  ...
}\<close>
  \<open>rnd k\<close> is the value of the \<open>k\<close>-th call of \<open>Math.random()\<close>; the loop returns the
  array together with the number of calls made so far.
\<close>

function grainLoop :: "real \<Rightarrow> (nat \<Rightarrow> real) \<Rightarrow> nat \<Rightarrow> nat \<Rightarrow> nat list \<Rightarrow> nat list \<times> nat" where
  "grainLoop amount rnd k i data =
     (if i < length data then
        (let noise = (rnd k - 0.5) * amount
         in grainLoop amount rnd (k + 1) (i + 4) (grainPixel noise i data))
      else (data, k))"
  by pat_completeness auto
termination
  by (relation "measure (\<lambda>(amount, rnd, k, i, data). length data - i)")
     (auto simp: grainPixel_def Let_def)

declare grainLoop.simps [simp del]

section \<open>The 2D drawing context\<close>

text \<open>
  What the code sets on a \<open>CanvasRenderingContext2D\<close>: the \<open>filter\<close> string (a list of CSS
  filter functions, \<open>'none'\<close> the empty list), \<open>globalCompositeOperation\<close>, \<open>globalAlpha\<close>,
  \<open>fillStyle\<close> and the horizontal mirror made by \<open>translate(width, 0); scale(-1, 1)\<close>.
\<close>

datatype filterFn =
  Sepia real | Saturate real | Contrast real | Brightness real | Grayscale real | Blur real

type_synonym cssFilter = "filterFn list"

datatype compositeOp = SourceOver | Screen | Overlay | Multiply | ColorBurn | SoftLight

datatype rgba = Rgba nat nat nat real

datatype fillStyle =
  Solid rgba
  | RadialGradient real real real real real real "(real \<times> rgba) list"

record dstate =
  cfilter :: cssFilter
  gco :: compositeOp
  galpha :: real
  fill :: fillStyle
  mirror :: bool

definition defaultState :: dstate where
  "defaultState =
     \<lparr>cfilter = [], gco = SourceOver, galpha = 1, fill = Solid (Rgba 0 0 0 1), mirror = False\<rparr>"

text \<open>
  The bitmap of a canvas is kept as the list of draw calls made on it since it was last
  empty, each with the drawing state in force at the call: the browser's rasteriser is a
  function of exactly that. \<open>putImageData\<close> replaces the bitmap by raw bytes.
\<close>

datatype source =
  ImageSrc string
  | VideoSrc
  | CanvasSrc "paint list"
  | FillSrc fillStyle
and paint =
  Paint source cssFilter compositeOp real bool
  | Pixels "nat list"

record ctx =
  cur :: dstate
  stack :: "dstate list"
  painted :: "paint list"

definition newContext :: ctx where
  "newContext = \<lparr>cur = defaultState, stack = [], painted = []\<rparr>"

definition setFilter :: "cssFilter \<Rightarrow> ctx \<Rightarrow> ctx" where
  "setFilter v c = c\<lparr>cur := (cur c)\<lparr>cfilter := v\<rparr>\<rparr>"

definition setGCO :: "compositeOp \<Rightarrow> ctx \<Rightarrow> ctx" where
  "setGCO v c = c\<lparr>cur := (cur c)\<lparr>gco := v\<rparr>\<rparr>"

text \<open>The setter of \<open>globalAlpha\<close> ignores a value outside 0..1.\<close>

definition setAlpha :: "real \<Rightarrow> ctx \<Rightarrow> ctx" where
  "setAlpha v c = (if 0 \<le> v \<and> v \<le> 1 then c\<lparr>cur := (cur c)\<lparr>galpha := v\<rparr>\<rparr> else c)"

definition setFillStyle :: "fillStyle \<Rightarrow> ctx \<Rightarrow> ctx" where
  "setFillStyle v c = c\<lparr>cur := (cur c)\<lparr>fill := v\<rparr>\<rparr>"

definition flipHorizontal :: "ctx \<Rightarrow> ctx" where
  "flipHorizontal c = c\<lparr>cur := (cur c)\<lparr>mirror := \<not> mirror (cur c)\<rparr>\<rparr>"

definition save :: "ctx \<Rightarrow> ctx" where
  "save c = c\<lparr>stack := cur c # stack c\<rparr>"

definition restore :: "ctx \<Rightarrow> ctx" where
  "restore c = (case stack c of [] \<Rightarrow> c | s # rest \<Rightarrow> c\<lparr>cur := s, stack := rest\<rparr>)"

definition paintWith :: "source \<Rightarrow> dstate \<Rightarrow> paint" where
  "paintWith src s = Paint src (cfilter s) (gco s) (galpha s) (mirror s)"

text \<open>\<open>drawImage(src, 0, 0)\<close>, \<open>fillRect\<close> and \<open>clearRect\<close> over the whole canvas.\<close>

definition drawImage :: "source \<Rightarrow> ctx \<Rightarrow> ctx" where
  "drawImage src c = c\<lparr>painted := painted c @ [paintWith src (cur c)]\<rparr>"

definition fillRect :: "ctx \<Rightarrow> ctx" where
  "fillRect c = c\<lparr>painted := painted c @ [paintWith (FillSrc (fill (cur c))) (cur c)]\<rparr>"

definition clearRect :: "ctx \<Rightarrow> ctx" where
  "clearRect c = c\<lparr>painted := []\<rparr>"

definition putImageData :: "nat list \<Rightarrow> ctx \<Rightarrow> ctx" where
  "putImageData d c = c\<lparr>painted := [Pixels d]\<rparr>"

section \<open>The browser\<close>

text \<open>
  What the code asks of its environment: whether the image loads (\<open>onload\<close> with its width
  and height, \<open>onerror\<close> otherwise), whether drawing it taints the canvas (an image of
  another origin loaded without CORS), whether each \<open>getContext('2d')\<close> of
  \<open>applyVintageFilter\<close> returns a context, the bytes \<open>getImageData\<close> reads off a bitmap, the
  values of \<open>Math.random()\<close>, and the base64 text the encoder of \<open>toDataURL\<close> makes of a
  bitmap for a type and a quality.
\<close>

record browser =
  imageLoad :: "string \<Rightarrow> (nat \<times> nat) option"
  tainted :: "string \<Rightarrow> bool"
  hasCtx :: bool
  hasTempCtx :: bool
  hasBaseCtx :: bool
  getImageData :: "paint list \<Rightarrow> nat list"
  mathRandom :: "nat \<Rightarrow> real"
  encodeBase64 :: "paint list \<Rightarrow> string \<Rightarrow> real \<Rightarrow> string"

text \<open>
  \<open>canvas.toDataURL(type, quality)\<close> of a canvas that is not empty, for a type the browser
  encodes (\<open>image/jpeg\<close> is one): \<open>data:\<close>, the type, \<open>;base64,\<close> and the encoded bitmap.
\<close>

definition toDataURL :: "browser \<Rightarrow> paint list \<Rightarrow> string \<Rightarrow> real \<Rightarrow> string" where
  "toDataURL br ps type q = ''data:'' @ type @ '';base64,'' @ encodeBase64 br ps type q"

text \<open>
  A promise is resolved, rejected, or left pending for ever. \<open>applyVintageFilter\<close> is given
  \<open>resolve\<close> only, and nothing catches an exception thrown inside \<open>img.onload\<close>: the handler
  ends there and the promise stays pending.
\<close>

datatype 'a settled = Resolved 'a | Rejected string | Pending

section \<open>Final capture: \<open>applyVintageFilter\<close>\<close>

text \<open>The block under \<open>BEAUTYPIXEL SIMULATION\<close>.\<close>

definition beautyFinal :: "browser \<Rightarrow> real \<Rightarrow> ctx \<Rightarrow> ctx" where
  "beautyFinal br beautyLevel c =
     (if beautyLevel > 0 then
        (let strength = beautyLevel / 100 in
         if hasTempCtx br then
           (let tempCtx = drawImage (CanvasSrc (painted c)) newContext;
                blurRadius = 3 + (strength * 8);
                tempCtx = setFilter [Blur blurRadius] tempCtx;
                tempCtx = drawImage (CanvasSrc (painted c)) tempCtx;
                tempCtx = setFilter [] tempCtx;
                c = setGCO Screen c;
                c = setAlpha (0.5 * strength) c;
                c = drawImage (CanvasSrc (painted tempCtx)) c;
                c = setGCO SourceOver c;
                c = setAlpha 1.0 c
            in c)
         else c)
      else c)"

text \<open>The \<open>switch (filterType)\<close> under \<open>STRONG VINTAGE FILTERS\<close>, case by case.\<close>

definition filterSwitch :: "FilterType \<Rightarrow> real \<Rightarrow> real \<Rightarrow> paint list \<Rightarrow> ctx \<Rightarrow> ctx" where
  "filterSwitch filterType w h baseCanvas c =
     (case filterType of
        RETRO_CLASSIC \<Rightarrow>
          (let c = setFilter [Sepia 0.4, Saturate 1.4, Contrast 1.1, Brightness 1.05] c;
               c = drawImage (CanvasSrc baseCanvas) c;
               c = setFilter [] c;
               c = setGCO Overlay c;
               c = setFillStyle (Solid (Rgba 255 190 100 0.3)) c;
               c = fillRect c
           in c)
      | RETRO_NOIR \<Rightarrow>
          (let c = setFilter [Grayscale 1, Contrast 1.8, Brightness 0.9] c;
               c = drawImage (CanvasSrc baseCanvas) c;
               c = setFilter [] c;
               gradNoir = RadialGradient (w / 2) (h / 2) (w / 3) (w / 2) (h / 2) (w * 0.8)
                            [(0, Rgba 0 0 0 0), (1, Rgba 0 0 0 0.7)];
               c = setGCO Multiply c;
               c = setFillStyle gradNoir c;
               c = fillRect c
           in c)
      | RETRO_INSTANT \<Rightarrow>
          (let c = setFilter [Contrast 1.1, Brightness 1.2, Saturate 0.85, Sepia 0.2] c;
               c = drawImage (CanvasSrc baseCanvas) c;
               c = setFilter [] c;
               c = setGCO Screen c;
               c = setFillStyle (Solid (Rgba 30 40 100 0.25)) c;
               c = fillRect c;
               c = setGCO Overlay c;
               c = setFillStyle (Solid (Rgba 255 240 200 0.15)) c;
               c = fillRect c
           in c)
      | CINE_TEAL_ORANGE \<Rightarrow>
          (let c = setFilter [Contrast 1.2, Saturate 1.1] c;
               c = drawImage (CanvasSrc baseCanvas) c;
               c = setFilter [] c;
               c = setGCO Overlay c;
               c = setFillStyle (Solid (Rgba 255 160 0 0.4)) c;
               c = fillRect c;
               c = setGCO ColorBurn c;
               c = setFillStyle (Solid (Rgba 0 220 255 0.4)) c;
               c = fillRect c
           in c)
      | CINE_MOODY \<Rightarrow>
          (let c = setFilter [Saturate 0.7, Contrast 1.4, Brightness 0.85] c;
               c = drawImage (CanvasSrc baseCanvas) c;
               c = setFilter [] c;
               c = setGCO Overlay c;
               c = setFillStyle (Solid (Rgba 20 60 50 0.6)) c;
               c = fillRect c
           in c)
      | CINE_VIVID \<Rightarrow>
          (let c = setFilter [Saturate 2.2, Contrast 1.2, Brightness 1.05] c;
               c = drawImage (CanvasSrc baseCanvas) c;
               c = setFilter [] c;
               c = setGCO SoftLight c;
               c = setFillStyle (Solid (Rgba 80 0 100 0.1)) c;
               c = fillRect c
           in c)
      | ORIGINAL \<Rightarrow> drawImage (CanvasSrc baseCanvas) c)"

text \<open>
  The block under \<open>UNIVERSAL GRAIN\<close>, with the value of \<open>noiseAmount\<close> as an argument. It
  returns the context and the number of calls of \<open>Math.random()\<close> it made.
\<close>

definition grainSection :: "browser \<Rightarrow> real \<Rightarrow> ctx \<Rightarrow> ctx \<times> nat" where
  "grainSection br amount c =
     (let c = setGCO Overlay c;
          c = setAlpha 1.0 c
      in if amount > 0 then
           (let data = getImageData br (painted c);
                (data, calls) = grainLoop amount (mathRandom br) 0 0 data
            in (putImageData data c, calls))
         else (c, 0))"

text \<open>
  The body of \<open>img.onload\<close> from the first \<open>drawImage\<close> to the canvas that is encoded:
  beautify, copy to \<open>baseCanvas\<close> (\<open>bCtx?.drawImage\<close> draws nothing without a context),
  clear, filter switch, grain.
\<close>

definition gradeCanvas :: "browser \<Rightarrow> string \<Rightarrow> nat \<times> nat \<Rightarrow> FilterType \<Rightarrow> real \<Rightarrow> ctx" where
  "gradeCanvas br imageSrc dims filterType beautyLevel =
     (let c = drawImage (ImageSrc imageSrc) newContext;
          c = beautyFinal br beautyLevel c;
          baseCanvas = (if hasBaseCtx br
                        then painted (drawImage (CanvasSrc (painted c)) newContext) else []);
          c = clearRect c;
          c = setAlpha 1 c;
          c = filterSwitch filterType (real (fst dims)) (real (snd dims)) baseCanvas c
      in fst (grainSection br (noiseAmount filterType) c))"

text \<open>
  The whole function. Two ways \<open>img.onload\<close> throws are part of it. An image of width or
  height 0 gives canvases of that size, and \<open>drawImage\<close> of such a canvas throws: every path
  draws one (\<open>bCtx?.drawImage(canvas, 0, 0)\<close>, or \<open>ctx.drawImage(baseCanvas, 0, 0)\<close> in each
  case of the switch when \<open>bCtx\<close> is missing). On a tainted canvas \<open>toDataURL\<close> throws, and
  \<open>getImageData\<close> before it.
\<close>

definition applyVintageFilter :: "browser \<Rightarrow> string \<Rightarrow> FilterType \<Rightarrow> real \<Rightarrow> string settled" where
  "applyVintageFilter br imageSrc filterType beautyLevel =
     (case imageLoad br imageSrc of
        None \<Rightarrow> Resolved imageSrc
      | Some dims \<Rightarrow>
          if \<not> hasCtx br then Resolved imageSrc
          else if fst dims = 0 \<or> snd dims = 0 then Pending
          else if tainted br imageSrc then Pending
          else Resolved (toDataURL br
                 (painted (gradeCanvas br imageSrc dims filterType beautyLevel))
                 ''image/jpeg'' 0.92))"

section \<open>The camera component\<close>

text \<open>The interface \<open>Photo\<close> (\<open>id\<close>, \<open>x\<close> and \<open>y\<close> renamed; \<open>caption\<close> is \<open>string | null\<close>).\<close>

record Photo =
  photoId :: string
  dataUrl :: string
  caption :: "string option"
  timestamp :: nat
  isDeveloping :: bool
  xPos :: real
  yPos :: real
  rotation :: real
  zIndex :: int

text \<open>
  \<open>!v\<close> for a value of type \<open>string | null\<close>: \<open>null\<close> and the empty string are falsy.
\<close>

definition falsy :: "string option \<Rightarrow> bool" where
  "falsy v = (case v of None \<Rightarrow> True | Some t \<Rightarrow> t = [])"

text \<open>
  The state of \<open>RetroCamera\<close> that \<open>renderPreview\<close> and \<open>takePhoto\<close> read and write, with
  what the component has asked of the event loop: the sounds played, the timers set and
  the promise it awaits. Handlers read the state as last set.
\<close>

datatype sound = Shutter | Motor

record camera =
  videoRef :: bool
  captureCanvasRef :: bool
  previewCanvasRef :: bool
  readyState :: nat
  isShooting :: bool
  isCameraOn :: bool
  error :: "string option"
  showSettings :: bool
  tempPhoto :: "string option"
  beautyLevel :: real
  activeFilter :: FilterType
  useAiCaption :: bool
  position :: "real \<times> real"
  sounds :: "sound list"
  motorTimers :: nat
  filtering :: nat
  ejecting :: "Photo list"
  delivered :: "(Photo \<times> (real \<times> real) \<times> bool) list"

subsection \<open>Live preview: \<open>renderPreview\<close>\<close>

text \<open>Step 2, \<open>Real-time Beauty\<close>.\<close>

definition previewBeauty :: "real \<Rightarrow> ctx \<Rightarrow> ctx" where
  "previewBeauty level c =
     (if level > 0 then
        (let strength = level / 100;
             c = save c;
             c = setFilter [Blur (5 + strength * 12)] c;
             c = setGCO Screen c;
             c = setAlpha (strength * 0.6) c;
             c = flipHorizontal c;
             c = drawImage VideoSrc c;
             c = restore c
         in c)
      else c)"

text \<open>Step 3: the \<open>switch (activeFilter)\<close> that assigns \<open>ctx.filter\<close>.\<close>

definition previewSwitch :: "FilterType \<Rightarrow> ctx \<Rightarrow> ctx" where
  "previewSwitch f c =
     (case f of
        RETRO_CLASSIC \<Rightarrow> setFilter [Sepia 0.4, Saturate 1.4, Contrast 1.1, Brightness 1.05] c
      | RETRO_NOIR \<Rightarrow> setFilter [Grayscale 1, Contrast 1.8, Brightness 0.9] c
      | RETRO_INSTANT \<Rightarrow> setFilter [Contrast 1.1, Brightness 1.1, Saturate 0.85, Sepia 0.2] c
      | CINE_TEAL_ORANGE \<Rightarrow> setFilter [Contrast 1.2, Saturate 1.1] c
      | CINE_MOODY \<Rightarrow> setFilter [Saturate 0.7, Contrast 1.4, Brightness 0.85] c
      | CINE_VIVID \<Rightarrow> setFilter [Saturate 2.2, Contrast 1.2, Brightness 1.05] c
      | ORIGINAL \<Rightarrow> setFilter [] c)"

text \<open>Step 3: the block \<open>if (activeFilter !== FilterType.ORIGINAL)\<close>.\<close>

definition previewLayers :: "FilterType \<Rightarrow> ctx \<Rightarrow> ctx" where
  "previewLayers f c =
     (if f \<noteq> ORIGINAL then
        (let c = setGCO Overlay c in
         if f = RETRO_CLASSIC then
           (let c = setFillStyle (Solid (Rgba 255 190 100 0.3)) c;
                c = fillRect c
            in c)
         else if f = CINE_TEAL_ORANGE then
           (let c = setFillStyle (Solid (Rgba 255 160 0 0.3)) c;
                c = fillRect c;
                c = setGCO ColorBurn c;
                c = setFillStyle (Solid (Rgba 0 220 255 0.3)) c;
                c = fillRect c
            in c)
         else if f = CINE_MOODY then
           (let c = setFillStyle (Solid (Rgba 20 60 50 0.5)) c;
                c = fillRect c
            in c)
         else if f = RETRO_INSTANT then
           (let c = setGCO Screen c;
                c = setFillStyle (Solid (Rgba 30 40 100 0.25)) c;
                c = fillRect c
            in c)
         else c)
      else c)"

text \<open>
  One frame. \<open>ctxOk\<close>: \<open>getContext\<close> returned a context; \<open>resized\<close>: the video's size differs
  from the canvas's, and assigning \<open>canvas.width\<close> empties the canvas and resets its state.
  The call of \<open>requestAnimationFrame\<close> that ends the function is not part of the bitmap.
\<close>

definition renderPreview :: "camera \<Rightarrow> bool \<Rightarrow> bool \<Rightarrow> ctx \<Rightarrow> ctx" where
  "renderPreview cam ctxOk resized c =
     (if videoRef cam \<and> previewCanvasRef cam \<and> isCameraOn cam \<and> falsy (error cam)
         \<and> readyState cam = 4 then
        (if ctxOk then
           (let c = (if resized then newContext else c);
                c = setFilter [] c;
                c = setGCO SourceOver c;
                c = setAlpha 1 c;
                c = save c;
                c = flipHorizontal c;
                c = drawImage VideoSrc c;
                c = restore c;
                c = previewBeauty (beautyLevel cam) c;
                c = save c;
                c = previewSwitch (activeFilter cam) c;
                c = previewLayers (activeFilter cam) c;
                c = restore c
            in c)
         else c)
      else c)"

subsection \<open>The recipe each path applies\<close>

text \<open>
  The specification's recipe of a preset, read off the draw calls of a path the same way
  for both: each call is a layer, the frame (an image, a canvas or the video) or a tint
  (a fill with its style), with the CSS filter, the blend mode and the opacity it is
  painted under. Whether the path writes grain is whether it puts raw pixels.
\<close>

datatype layerKind = Frame | Tint fillStyle

fun layerOf :: "paint \<Rightarrow> (layerKind \<times> cssFilter \<times> compositeOp \<times> real) list" where
  "layerOf (Paint (FillSrc st) flt op a m) = [(Tint st, flt, op, a)]"
| "layerOf (Paint src flt op a m) = [(Frame, flt, op, a)]"
| "layerOf (Pixels d) = []"

fun isPixels :: "paint \<Rightarrow> bool" where
  "isPixels (Pixels d) = True"
| "isPixels p = False"

text \<open>The layers of the filter pass of \<open>applyVintageFilter\<close>, on the cleared canvas.\<close>

definition finalRecipe ::
    "FilterType \<Rightarrow> real \<Rightarrow> real \<Rightarrow> (layerKind \<times> cssFilter \<times> compositeOp \<times> real) list" where
  "finalRecipe f w h = concat (map layerOf (painted (filterSwitch f w h [] newContext)))"

definition finalGrain :: "browser \<Rightarrow> string \<Rightarrow> nat \<times> nat \<Rightarrow> FilterType \<Rightarrow> real \<Rightarrow> bool" where
  "finalGrain br imageSrc dims f level =
     list_ex isPixels (painted (gradeCanvas br imageSrc dims f level))"

text \<open>The layers of one preview frame on an empty canvas, with the beautify pass off.\<close>

definition previewRecipe ::
    "camera \<Rightarrow> bool \<Rightarrow> bool \<Rightarrow> (layerKind \<times> cssFilter \<times> compositeOp \<times> real) list" where
  "previewRecipe cam ctxOk resized =
     concat (map layerOf
       (painted (renderPreview (cam\<lparr>beautyLevel := 0\<rparr>) ctxOk resized newContext)))"

definition previewGrain :: "camera \<Rightarrow> bool \<Rightarrow> bool \<Rightarrow> bool" where
  "previewGrain cam ctxOk resized =
     list_ex isPixels (painted (renderPreview cam ctxOk resized newContext))"

text \<open>The claim that both paths apply one recipe, as the specification words it.\<close>

definition sameRecipe ::
    "browser \<Rightarrow> string \<Rightarrow> nat \<times> nat \<Rightarrow> camera \<Rightarrow> bool \<Rightarrow> bool \<Rightarrow> bool" where
  "sameRecipe br imageSrc dims cam ctxOk resized =
     (previewRecipe cam ctxOk resized
        = finalRecipe (activeFilter cam) (real (fst dims)) (real (snd dims))
      \<and> previewGrain cam ctxOk resized
          = finalGrain br imageSrc dims (activeFilter cam) (beautyLevel cam))"

subsection \<open>The shutter: \<open>takePhoto\<close>\<close>

text \<open>
  \<open>takePhoto\<close> up to its \<open>await\<close>. \<open>hasContext\<close>: the capture canvas gave a 2D context. The
  call of \<open>applyVintageFilter\<close> it starts is counted in \<open>filtering\<close>.
\<close>

definition takePhoto :: "bool \<Rightarrow> camera \<Rightarrow> camera" where
  "takePhoto hasContext s =
     (if \<not> videoRef s \<or> \<not> captureCanvasRef s \<or> isShooting s \<or> \<not> isCameraOn s then s
      else if readyState s < 2 then s
      else
        (let s = s\<lparr>sounds := sounds s @ [Shutter]\<rparr>;
             s = s\<lparr>isShooting := True\<rparr>;
             s = s\<lparr>showSettings := False\<rparr>;
             s = s\<lparr>motorTimers := motorTimers s + 1\<rparr>
         in if hasContext then s\<lparr>filtering := filtering s + 1\<rparr> else s))"

text \<open>
  The rest of \<open>takePhoto\<close> once \<open>applyVintageFilter\<close> has settled: \<open>setTempPhoto\<close>, the new
  photo, and the timer of 2050 ms. \<open>now\<close> is \<open>Date.now()\<close>, \<open>nowStr\<close> its \<open>toString()\<close>. A
  rejection would end the async function there; a pending promise continues nothing.
\<close>

definition takePhotoFiltered :: "string settled \<Rightarrow> nat \<Rightarrow> string \<Rightarrow> camera \<Rightarrow> camera" where
  "takePhotoFiltered r now nowStr s =
     (if filtering s = 0 then s
      else
        (case r of
           Pending \<Rightarrow> s
         | Rejected e \<Rightarrow> s\<lparr>filtering := filtering s - 1\<rparr>
         | Resolved filteredDataUrl \<Rightarrow>
             (let newPhoto = \<lparr>photoId = nowStr, dataUrl = filteredDataUrl, caption = Some [],
                              timestamp = now, isDeveloping = True, xPos = 0, yPos = 0,
                              rotation = 0, zIndex = 0\<rparr>
              in s\<lparr>filtering := filtering s - 1,
                    tempPhoto := Some filteredDataUrl,
                    ejecting := ejecting s @ [newPhoto]\<rparr>)))"

text \<open>The callback of that timer: \<open>onPhotoTaken\<close>, \<open>setIsShooting(false)\<close>, \<open>setTempPhoto(null)\<close>.\<close>

definition takePhotoEjected :: "camera \<Rightarrow> camera" where
  "takePhotoEjected s =
     (case ejecting s of
        [] \<Rightarrow> s
      | newPhoto # rest \<Rightarrow>
          s\<lparr>ejecting := rest,
            delivered := delivered s @
              [(newPhoto, (fst (position s) + 107, snd (position s) - 224), useAiCaption s)],
            isShooting := False,
            tempPhoto := None\<rparr>)"

definition motorTimeout :: "camera \<Rightarrow> camera" where
  "motorTimeout s =
     (if motorTimers s = 0 then s
      else s\<lparr>motorTimers := motorTimers s - 1, sounds := sounds s @ [Motor]\<rparr>)"

definition togglePower :: "camera \<Rightarrow> camera" where
  "togglePower s =
     (let s' = s\<lparr>isCameraOn := \<not> isCameraOn s\<rparr>
      in if isCameraOn s then s'\<lparr>showSettings := False\<rparr> else s')"

text \<open>What can happen to the component, and a run of such events.\<close>

datatype event =
  ShutterClick bool
  | FilterSettled "string settled" nat string
  | EjectTimeout
  | MotorTimeout
  | PowerClick

fun step :: "event \<Rightarrow> camera \<Rightarrow> camera" where
  "step (ShutterClick hasContext) s = takePhoto hasContext s"
| "step (FilterSettled r now nowStr) s = takePhotoFiltered r now nowStr s"
| "step EjectTimeout s = takePhotoEjected s"
| "step MotorTimeout s = motorTimeout s"
| "step PowerClick s = togglePower s"

definition run :: "event list \<Rightarrow> camera \<Rightarrow> camera" where
  "run evs s = fold step evs s"

text \<open>Final captures started and not yet handed to \<open>onPhotoTaken\<close>.\<close>

definition inFlight :: "camera \<Rightarrow> nat" where
  "inFlight s = filtering s + length (ejecting s)"

text \<open>At most one capture is in flight, and none unless \<open>isShooting\<close> is set.\<close>

definition captureInv :: "camera \<Rightarrow> bool" where
  "captureInv s = (inFlight s \<le> (if isShooting s then 1 else 0))"

section \<open>The captions of the application\<close>

text \<open>
  \<open>initialCaption\<close> of \<open>handlePhotoTaken\<close>; the first three bytes of the placeholder are the
  UTF-8 encoding of U+2728.
\<close>

definition writingPlaceholder :: string where
  "writingPlaceholder = CHR 0xE2 # CHR 0x9C # CHR 0xA8 # '' Writing...''"

definition defaultCaption :: string where
  "defaultCaption = ''Beautiful Moment''"

definition initialCaption :: "bool \<Rightarrow> string" where
  "initialCaption isAiEnabled = (if isAiEnabled then writingPlaceholder else defaultCaption)"

record app =
  photos :: "Photo list"
  lastError :: "string option"
  maxZIndex :: int

text \<open>
  \<open>handlePhotoTaken\<close> up to \<open>setPhotos(prev => [...prev, newPhoto])\<close>; \<open>innerWidth\<close> and
  \<open>innerHeight\<close> are the window's.
\<close>

definition handlePhotoTaken ::
    "real \<Rightarrow> real \<Rightarrow> Photo \<Rightarrow> (real \<times> real) option \<Rightarrow> bool \<Rightarrow> app \<Rightarrow> app \<times> Photo" where
  "handlePhotoTaken innerWidth innerHeight newPhotoData startPos isAiEnabled a =
     (let a = (if isAiEnabled then a\<lparr>lastError := None\<rparr> else a);
          a = a\<lparr>maxZIndex := maxZIndex a + 1\<rparr>;
          newPhoto = newPhotoData
            \<lparr>xPos := (case startPos of Some q \<Rightarrow> fst q | None \<Rightarrow> innerWidth / 2 - 85),
             yPos := (case startPos of Some q \<Rightarrow> snd q | None \<Rightarrow> innerHeight / 2 - 105),
             rotation := (case startPos of Some q \<Rightarrow> - 2 | None \<Rightarrow> 0),
             zIndex := maxZIndex a,
             caption := Some (initialCaption isAiEnabled)\<rparr>
      in (a\<lparr>photos := photos a @ [newPhoto]\<rparr>, newPhoto))"

text \<open>The \<open>.then\<close> callback of \<open>generatePhotoCaption\<close>.\<close>

definition captionResolved :: "string \<Rightarrow> string \<Rightarrow> app \<Rightarrow> app" where
  "captionResolved newId aiCaption a =
     a\<lparr>photos := map (\<lambda>p.
          if photoId p = newId \<and> (caption p = Some writingPlaceholder \<or> falsy (caption p))
          then p\<lparr>caption := Some aiCaption\<rparr>
          else p) (photos a)\<rparr>"

text \<open>
  The \<open>.catch\<close> callback: \<open>msg\<close> is the message it has made of the error, shown through
  \<open>setLastError\<close>.
\<close>

definition captionFailed :: "string \<Rightarrow> string \<Rightarrow> app \<Rightarrow> app" where
  "captionFailed newId msg a =
     (let a = a\<lparr>lastError := Some (''Smart Caption Failed: '' @ msg)\<rparr>
      in a\<lparr>photos := map (\<lambda>p.
           if photoId p = newId \<and> caption p = Some writingPlaceholder
           then p\<lparr>caption := Some defaultCaption\<rparr>
           else p) (photos a)\<rparr>)"

text \<open>\<open>handleUpdateCaption\<close>: the user's edit.\<close>

definition handleUpdateCaption :: "string \<Rightarrow> string \<Rightarrow> app \<Rightarrow> app" where
  "handleUpdateCaption pid newCaption a =
     a\<lparr>photos := map (\<lambda>p. if photoId p = pid then p\<lparr>caption := Some newCaption\<rparr> else p)
                     (photos a)\<rparr>"

text \<open>
  The earlier copy of the application writes \<open>"Beautiful Moment"\<close> at capture time, tests
  for that string, and only logs a failure.
\<close>

definition captionResolvedEarlier :: "string \<Rightarrow> string \<Rightarrow> app \<Rightarrow> app" where
  "captionResolvedEarlier newId aiCaption a =
     a\<lparr>photos := map (\<lambda>p.
          if photoId p = newId \<and> (caption p = Some defaultCaption \<or> falsy (caption p))
          then p\<lparr>caption := Some aiCaption\<rparr>
          else p) (photos a)\<rparr>"

definition captionFailedEarlier :: "app \<Rightarrow> app" where
  "captionFailedEarlier a = a"

section \<open>Sample inputs\<close>

text \<open>
  A PNG file of 2 by 1 pixels, (10, 128, 250, 255) and (0, 7, 255, 200), as a data URL.
\<close>

definition samplePng :: string where
  "samplePng = ''data:image/png;base64,iVBORw0KGgoAAAANSUhEUgAAAAIAAAABCAYAAAD0In+KAAAAEUlEQVR42mPgavj1n4H9/wkAEYsEUjVGjCMAAAAASUVORK5CYII=''"

text \<open>
  A browser that loads this image and no other string, taints nothing, has every context,
  reads the image's two pixels through \<open>getImageData\<close>, and whose \<open>Math.random()\<close> gives 0.9,
  then 0.1.
\<close>

definition sampleBrowser :: browser where
  "sampleBrowser =
     \<lparr>imageLoad = (\<lambda>src. if src = samplePng then Some (2, 1) else None),
      tainted = (\<lambda>src. False),
      hasCtx = True, hasTempCtx = True, hasBaseCtx = True,
      getImageData = (\<lambda>ps. [10, 128, 250, 255, 0, 7, 255, 200]),
      mathRandom = (\<lambda>k. if k = 0 then 0.9 else 0.1),
      encodeBase64 = (\<lambda>ps t q. ''/9j/4AAQSkZJRgABAQ'')\<rparr>"

text \<open>A camera that is on and ready, with nothing in flight.\<close>

definition idleCamera :: camera where
  "idleCamera =
     \<lparr>videoRef = True, captureCanvasRef = True, previewCanvasRef = True, readyState = 4,
      isShooting = False, isCameraOn = True, error = None, showSettings = True,
      tempPhoto = None, beautyLevel = 80, activeFilter = CINE_MOODY, useAiCaption = False,
      position = (900, 500), sounds = [], motorTimers = 0, filtering = 0, ejecting = [],
      delivered = []\<rparr>"

text \<open>A photo as \<open>takePhoto\<close> makes it, and an application with no photos yet.\<close>

definition samplePhoto :: Photo where
  "samplePhoto =
     \<lparr>photoId = ''1700000000000'', dataUrl = ''data:image/jpeg;base64,/9j/4AAQ'',
      caption = Some [], timestamp = 1700000000000, isDeveloping = True,
      xPos = 0, yPos = 0, rotation = 0, zIndex = 0\<rparr>"

definition sampleApp :: app where
  "sampleApp = \<lparr>photos = [], lastError = None, maxZIndex = 10\<rparr>"

section \<open>Properties of the grain loop\<close>

lemma grainPixel_length [simp]: "length (grainPixel n i d) = length d"
  by (simp add: grainPixel_def Let_def)

lemma grainPixel_nth:
  "j < length d \<Longrightarrow>
   grainPixel n i d ! j = (if j = i \<or> j = i + 1 \<or> j = i + 2 then grainChannel n (d ! j) else d ! j)"
  by (auto simp: grainPixel_def Let_def nth_list_update)

lemma grainLoop_length: "length (fst (grainLoop a rnd k i d)) = length d"
proof (induction a rnd k i d rule: grainLoop.induct)
  case (1 a rnd k i d)
  show ?case
  proof (cases "i < length d")
    case True
    with "1" show ?thesis by (subst grainLoop.simps) (simp add: Let_def)
  next
    case False
    then show ?thesis by (subst grainLoop.simps) simp
  qed
qed

lemma grainLoop_calls: "snd (grainLoop a rnd k i d) = k + (length d - i + 3) div 4"
proof (induction a rnd k i d rule: grainLoop.induct)
  case (1 a rnd k i d)
  show ?case
  proof (cases "i < length d")
    case True
    have "snd (grainLoop a rnd k i d) = (k + 1) + (length d - (i + 4) + 3) div 4"
      using True "1" by (subst grainLoop.simps) (simp add: Let_def)
    also have "\<dots> = k + (length d - i + 3) div 4"
    proof (cases "i + 4 \<le> length d")
      case True
      then obtain t where t: "length d = i + 4 + t" using le_Suc_ex by blast
      have "(t + 3 + 4) div 4 = (t + 3) div 4 + 1" by (rule div_add_self2) simp
      then show ?thesis unfolding t by (simp add: add.commute add.left_commute)
    next
      case False
      with \<open>i < length d\<close> have "length d - i = 1 \<or> length d - i = 2 \<or> length d - i = 3"
        by linarith
      moreover have "length d - (i + 4) = 0" using False by simp
      ultimately show ?thesis by auto
    qed
    finally show ?thesis .
  next
    case False
    then show ?thesis by (subst grainLoop.simps) simp
  qed
qed


lemma grainLoop_nth:
  "j < length d \<Longrightarrow>
   fst (grainLoop a rnd k i d) ! j =
     (if j < i \<or> (j - i) mod 4 = 3 then d ! j
      else grainChannel ((rnd (k + (j - i) div 4) - 0.5) * a) (d ! j))"
proof (induction a rnd k i d rule: grainLoop.induct)
  case (1 a rnd k i d)
  show ?case
  proof (cases "i < length d")
    case False
    with "1.prems" show ?thesis by (subst grainLoop.simps) simp
  next
    case True
    let ?n = "(rnd k - 0.5) * a"
    let ?d = "grainPixel ?n i d"
    have unf: "grainLoop a rnd k i d = grainLoop a rnd (k + 1) (i + 4) ?d"
      using True by (subst grainLoop.simps) (simp add: Let_def)
    have jl: "j < length ?d" using "1.prems" by simp
    have ih: "fst (grainLoop a rnd (k + 1) (i + 4) ?d) ! j =
        (if j < i + 4 \<or> (j - (i + 4)) mod 4 = 3 then ?d ! j
         else grainChannel ((rnd (k + 1 + (j - (i + 4)) div 4) - 0.5) * a) (?d ! j))"
      using "1.IH" [OF True refl jl] .
    consider (lt) "j < i" | (a) "j = i" | (b) "j = i + 1" | (c) "j = i + 2" | (d) "j = i + 3"
      | (ge) "i + 4 \<le> j" by linarith
    then show ?thesis
    proof cases
      case lt
      then show ?thesis using ih "1.prems" by (simp add: unf grainPixel_nth)
    next
      case a
      then show ?thesis using ih "1.prems" by (simp add: unf grainPixel_nth)
    next
      case b
      then show ?thesis using ih "1.prems" by (simp add: unf grainPixel_nth)
    next
      case c
      then show ?thesis using ih "1.prems" by (simp add: unf grainPixel_nth)
    next
      case d
      then show ?thesis using ih "1.prems" by (simp add: unf grainPixel_nth)
    next
      case ge
      then obtain t where t: "j = i + 4 + t" using le_Suc_ex by blast
      have m: "(j - (i + 4)) mod 4 = (j - i) mod 4" unfolding t by simp
      have q: "k + 1 + (j - (i + 4)) div 4 = k + (j - i) div 4" unfolding t by simp
      have nlt: "\<not> j < i + 4" "\<not> j < i" "j \<noteq> i" "j \<noteq> i + 1" "j \<noteq> i + 2"
        using ge by auto
      have "?d ! j = d ! j" using "1.prems" nlt by (simp add: grainPixel_nth)
      then show ?thesis using ih nlt unfolding unf m q by simp
    qed
  qed
qed


section \<open>Properties of the drawing context\<close>

lemmas ctx_ops = setFilter_def setGCO_def setAlpha_def setFillStyle_def flipHorizontal_def
  save_def restore_def paintWith_def drawImage_def fillRect_def clearRect_def putImageData_def
  newContext_def defaultState_def

lemma filterSwitch_no_pixels:
  "list_ex isPixels (painted (filterSwitch f w h b c)) = list_ex isPixels (painted c)"
  by (cases f) (simp_all add: filterSwitch_def ctx_ops Let_def)

lemma grainSection_skip:
  "\<not> amount > 0 \<Longrightarrow> grainSection br amount c = (setAlpha 1 (setGCO Overlay c), 0)"
  by (simp add: grainSection_def Let_def)

lemma grainSection_run:
  "amount > 0 \<Longrightarrow> grainSection br amount c =
     (putImageData (fst (grainLoop amount (mathRandom br) 0 0 (getImageData br (painted c))))
        (setAlpha 1 (setGCO Overlay c)),
      snd (grainLoop amount (mathRandom br) 0 0 (getImageData br (painted c))))"
  by (simp add: grainSection_def Let_def ctx_ops split: prod.splits)

lemma finalGrain_iff: "finalGrain br src dims f level \<longleftrightarrow> noiseAmount f > 0"
proof (cases "noiseAmount f > 0")
  case True
  then show ?thesis
    by (simp add: finalGrain_def gradeCanvas_def Let_def grainSection_run putImageData_def)
next
  case False
  then show ?thesis
    by (simp add: finalGrain_def gradeCanvas_def Let_def grainSection_skip
        filterSwitch_no_pixels setAlpha_def setGCO_def clearRect_def)
qed

section \<open>The grain amplitude of each preset\<close>

text \<open>
  C2. The amplitude is 0 for \<open>ORIGINAL\<close>, 45 for \<open>RETRO_NOIR\<close> and 25 for every other
  preset. The final-capture path writes grain into the pixels exactly when the amplitude
  is greater than 0; otherwise the grain block leaves the bitmap as it is and calls
  \<open>Math.random()\<close> not once.
\<close>

theorem noiseAmount_by_preset:
  "noiseAmount ORIGINAL = 0
   \<and> noiseAmount RETRO_NOIR = 45
   \<and> (f \<noteq> ORIGINAL \<and> f \<noteq> RETRO_NOIR \<longrightarrow> noiseAmount f = 25)
   \<and> (finalGrain br imageSrc dims f level \<longleftrightarrow> noiseAmount f > 0)
   \<and> (\<not> noiseAmount f > 0 \<longrightarrow>
        painted (fst (grainSection br (noiseAmount f) c)) = painted c
        \<and> snd (grainSection br (noiseAmount f) c) = 0)"
  by (simp add: finalGrain_iff grainSection_skip setAlpha_def setGCO_def) (simp add: noiseAmount_def)

theorem noiseAmount_by_preset_witness:
  "(CINE_MOODY \<noteq> ORIGINAL \<and> CINE_MOODY \<noteq> RETRO_NOIR) \<and> noiseAmount CINE_MOODY = 25
   \<and> finalGrain sampleBrowser ''data:image/jpeg;base64,AAAA'' (2, 1) CINE_MOODY 80
   \<and> \<not> noiseAmount ORIGINAL > 0
   \<and> \<not> finalGrain sampleBrowser ''data:image/jpeg;base64,AAAA'' (2, 1) ORIGINAL 80
   \<and> painted (fst (grainSection sampleBrowser (noiseAmount ORIGINAL) newContext))
       = painted newContext
   \<and> snd (grainSection sampleBrowser (noiseAmount ORIGINAL) newContext) = 0"
proof -
  note moody = noiseAmount_by_preset
    [of CINE_MOODY sampleBrowser "''data:image/jpeg;base64,AAAA''" "(2, 1)" 80 newContext]
  note orig = noiseAmount_by_preset
    [of ORIGINAL sampleBrowser "''data:image/jpeg;base64,AAAA''" "(2, 1)" 80 newContext]
  have h1: "CINE_MOODY \<noteq> ORIGINAL \<and> CINE_MOODY \<noteq> RETRO_NOIR" by simp
  have m25: "noiseAmount CINE_MOODY = 25" using moody h1 by blast
  have g: "finalGrain sampleBrowser ''data:image/jpeg;base64,AAAA'' (2, 1) CINE_MOODY 80"
    using moody m25 by simp
  have h2: "\<not> noiseAmount ORIGINAL > 0" using orig by simp
  show ?thesis using h1 m25 g h2 orig by blast
qed

section \<open>Grain injection\<close>

lemma toUint8Clamp_le: "toUint8Clamp x \<le> 255"
proof -
  have "nat \<lfloor>x\<rfloor> \<le> 255" if "x < 255" using that by linarith
  moreover have "nat (\<lfloor>x\<rfloor> + 1) \<le> 255" if "x < 255" using that by linarith
  ultimately show ?thesis
    by (auto simp: toUint8Clamp_def Let_def)
qed

lemma noise_range:
  assumes "0 \<le> r" "r < 1" "0 \<le> (amount::real)"
  shows "- amount / 2 \<le> (r - 0.5) * amount \<and> (r - 0.5) * amount \<le> amount / 2"
proof -
  have "- (1/2) * amount \<le> (r - 1/2) * amount"
    using assms by (intro mult_right_mono) auto
  moreover have "(r - 1/2) * amount \<le> (1/2) * amount"
    using assms by (intro mult_right_mono) auto
  ultimately show ?thesis by simp
qed

lemma grainLoop_channel:
  "j < length d \<Longrightarrow> j mod 4 \<noteq> 3 \<Longrightarrow>
   fst (grainLoop a rnd 0 0 d) ! j = grainChannel ((rnd (j div 4) - 0.5) * a) (d ! j)"
  using grainLoop_nth [of j d a rnd 0 0] by simp

lemma toUint8Clamp_near:
  assumes "0 \<le> x" "x \<le> 255"
  shows "\<bar>real (toUint8Clamp x) - x\<bar> \<le> 1 / 2"
proof -
  consider "x = 0" | "x = 255" | "0 < x" "x < 255" using assms by linarith
  then show ?thesis
  proof cases
    case 1 then show ?thesis by (simp add: toUint8Clamp_def)
  next
    case 2 then show ?thesis by (simp add: toUint8Clamp_def)
  next
    case 3
    have f0: "0 \<le> \<lfloor>x\<rfloor>" using 3 by simp
    have a: "real (nat \<lfloor>x\<rfloor>) = of_int \<lfloor>x\<rfloor>" using f0 by simp
    have b: "real (nat (\<lfloor>x\<rfloor> + 1)) = of_int \<lfloor>x\<rfloor> + 1" using f0 by simp
    have lo: "of_int \<lfloor>x\<rfloor> \<le> x" and hi: "x < of_int \<lfloor>x\<rfloor> + 1" by linarith+
    show ?thesis using 3 lo hi
      by (auto simp: toUint8Clamp_def Let_def a b simp del: of_nat_nat)
  qed
qed

lemma noise_preimage:
  assumes "0 < (amount::real)"
  shows "(u \<le> (r - 0.5) * amount \<and> (r - 0.5) * amount < v)
         \<longleftrightarrow> (u / amount + 1 / 2 \<le> r \<and> r < v / amount + 1 / 2)"
  using assms by (auto simp: field_simps)

text \<open>
  C5. When the amplitude is greater than 0 the grain block replaces the bitmap by as many
  bytes, in which every alpha byte is the old one and every R, G and B byte is the old
  byte plus the pixel's offset, clamped to 0..255 and rounded to a byte: it is at most
  255 and within one half of the clamped sum. The offset is
  \<open>(Math.random() - 0.5) * amplitude\<close>; for \<open>Math.random()\<close> in [0, 1) it lies between minus
  and plus half the amplitude, and it falls in an interval from \<open>u\<close> to \<open>v\<close> exactly when
  \<open>Math.random()\<close> falls in the interval from \<open>u / amplitude + 1/2\<close> to \<open>v / amplitude + 1/2\<close>,
  whose length is that of the first divided by the amplitude: the offset is as uniform
  over its range as \<open>Math.random()\<close> is over [0, 1). When the amplitude is not greater than 0
  the bitmap stays as it is and \<open>Math.random()\<close> is never called.
\<close>

theorem grain_injection:
  assumes rnd: "\<forall>k. 0 \<le> mathRandom br k \<and> mathRandom br k < 1"
  shows "if amount > 0 then
           (\<exists>out. painted (fst (grainSection br amount c)) = [Pixels out]
              \<and> length out = length (getImageData br (painted c))
              \<and> (\<forall>j < length (getImageData br (painted c)).
                   (let old = getImageData br (painted c) ! j;
                        noise = (mathRandom br (j div 4) - 0.5) * amount
                    in - amount / 2 \<le> noise \<and> noise \<le> amount / 2
                       \<and> (\<forall>u v. (u \<le> noise \<and> noise < v) \<longleftrightarrow>
                              (u / amount + 1 / 2 \<le> mathRandom br (j div 4)
                               \<and> mathRandom br (j div 4) < v / amount + 1 / 2))
                       \<and> out ! j = (if j mod 4 = 3 then old
                                    else toUint8Clamp (max 0 (min 255 (real old + noise))))
                       \<and> (j mod 4 \<noteq> 3 \<longrightarrow> out ! j \<le> 255
                            \<and> \<bar>real (out ! j) - max 0 (min 255 (real old + noise))\<bar> \<le> 1 / 2))))
         else painted (fst (grainSection br amount c)) = painted c
              \<and> snd (grainSection br amount c) = 0"
proof (cases "amount > 0")
  case False
  then show ?thesis by (simp add: grainSection_skip setAlpha_def setGCO_def)
next
  case True
  let ?data = "getImageData br (painted c)"
  let ?out = "fst (grainLoop amount (mathRandom br) 0 0 ?data)"
  have p: "painted (fst (grainSection br amount c)) = [Pixels ?out]"
    using True by (simp add: grainSection_run putImageData_def)
  have l: "length ?out = length ?data" by (rule grainLoop_length)
  have each: "(let old = ?data ! j; noise = (mathRandom br (j div 4) - 0.5) * amount
               in - amount / 2 \<le> noise \<and> noise \<le> amount / 2
                  \<and> (\<forall>u v. (u \<le> noise \<and> noise < v) \<longleftrightarrow>
                         (u / amount + 1 / 2 \<le> mathRandom br (j div 4)
                          \<and> mathRandom br (j div 4) < v / amount + 1 / 2))
                  \<and> ?out ! j = (if j mod 4 = 3 then old
                                else toUint8Clamp (max 0 (min 255 (real old + noise))))
                  \<and> (j mod 4 \<noteq> 3 \<longrightarrow> ?out ! j \<le> 255
                       \<and> \<bar>real (?out ! j) - max 0 (min 255 (real old + noise))\<bar> \<le> 1 / 2))"
    if j: "j < length ?data" for j
  proof -
    let ?n = "(mathRandom br (j div 4) - 0.5) * amount"
    let ?t = "max 0 (min 255 (real (?data ! j) + ?n))"
    have r: "- amount / 2 \<le> ?n \<and> ?n \<le> amount / 2"
      using rnd True by (intro noise_range) auto
    have u: "\<forall>u v. (u \<le> ?n \<and> ?n < v) \<longleftrightarrow>
               (u / amount + 1 / 2 \<le> mathRandom br (j div 4)
                \<and> mathRandom br (j div 4) < v / amount + 1 / 2)"
      using noise_preimage [OF True] by blast
    have n: "?out ! j = (if j mod 4 = 3 then ?data ! j else toUint8Clamp ?t)"
      using grainLoop_nth [OF j, of amount "mathRandom br" 0 0] by (simp add: grainChannel_def)
    have t: "0 \<le> ?t" "?t \<le> 255" by simp_all
    have b: "j mod 4 \<noteq> 3 \<longrightarrow> ?out ! j \<le> 255 \<and> \<bar>real (?out ! j) - ?t\<bar> \<le> 1 / 2"
      using n toUint8Clamp_le [of ?t] toUint8Clamp_near [OF t] by simp
    show ?thesis unfolding Let_def using r u n b by blast
  qed
  show ?thesis using True p l each by (auto simp del: One_nat_def)
qed

theorem grain_injection_witness:
  "(\<forall>k. 0 \<le> mathRandom sampleBrowser k \<and> mathRandom sampleBrowser k < 1)
   \<and> getImageData sampleBrowser (painted newContext) = [10, 128, 250, 255, 0, 7, 255, 200]
   \<and> painted (fst (grainSection sampleBrowser 25 newContext))
       = [Pixels [20, 138, 255, 255, 0, 0, 245, 200]]
   \<and> snd (grainSection sampleBrowser 25 newContext) = 2
   \<and> (\<exists>out. painted (fst (grainSection sampleBrowser 25 newContext)) = [Pixels out]
         \<and> length out = 8 \<and> out ! 3 = 255 \<and> out ! 7 = 200)
   \<and> painted (fst (grainSection sampleBrowser 0 newContext)) = painted newContext
   \<and> snd (grainSection sampleBrowser 0 newContext) = 0"
proof -
  have h: "\<forall>k. 0 \<le> mathRandom sampleBrowser k \<and> mathRandom sampleBrowser k < 1"
    by (simp add: sampleBrowser_def)
  have d: "getImageData sampleBrowser ps = [10, 128, 250, 255, 0, 7, 255, 200]" for ps
    by (simp add: sampleBrowser_def)
  have bytes: "grainSection sampleBrowser 25 newContext =
     (putImageData [20, 138, 255, 255, 0, 0, 245, 200] (setAlpha 1 (setGCO Overlay newContext)), 2)"
    by (simp add: grainSection_run grainLoop.simps grainPixel_def grainChannel_def
        toUint8Clamp_def sampleBrowser_def Let_def)
  have pos: "\<exists>out. painted (fst (grainSection sampleBrowser 25 newContext)) = [Pixels out]
         \<and> length out = 8 \<and> out ! 3 = 255 \<and> out ! 7 = 200"
    using grain_injection [OF h, of 25 newContext] unfolding d Let_def
    by (auto simp del: One_nat_def)
  have zero: "painted (fst (grainSection sampleBrowser 0 newContext)) = painted newContext
      \<and> snd (grainSection sampleBrowser 0 newContext) = 0"
    using grain_injection [OF h, of 0 newContext] by simp
  have b1: "painted (fst (grainSection sampleBrowser 25 newContext))
       = [Pixels [20, 138, 255, 255, 0, 0, 245, 200]]"
    and b2: "snd (grainSection sampleBrowser 25 newContext) = 2"
    unfolding bytes by (simp_all add: putImageData_def)
  show ?thesis using h d [of "painted newContext"] b1 b2 pos zero by blast
qed

text \<open>
  C9. The R, G and B bytes of one pixel receive the same offset, computed from the one
  call of \<open>Math.random()\<close> made for that pixel; the loop makes one call per pixel.
\<close>

theorem grain_same_offset:
  assumes "4 * p + 2 < length data"
  shows "(let out = fst (grainLoop amount rnd 0 0 data);
              noise = (rnd p - 0.5) * amount
          in out ! (4 * p) = toUint8Clamp (max 0 (min 255 (real (data ! (4 * p)) + noise)))
           \<and> out ! (4 * p + 1) = toUint8Clamp (max 0 (min 255 (real (data ! (4 * p + 1)) + noise)))
           \<and> out ! (4 * p + 2) = toUint8Clamp (max 0 (min 255 (real (data ! (4 * p + 2)) + noise))))
         \<and> snd (grainLoop amount rnd 0 0 data) = (length data + 3) div 4"
proof -
  let ?out = "fst (grainLoop amount rnd 0 0 data)"
  let ?n = "(rnd p - 0.5) * amount"
  have a: "4 * p < length data" and b: "4 * p + 1 < length data" using assms by auto
  have d0: "(4 * p) div 4 = p" "(4 * p) mod 4 = 0" by presburger+
  have d1: "(4 * p + 1) div 4 = p" "(4 * p + 1) mod 4 = 1" by presburger+
  have d2: "(4 * p + 2) div 4 = p" "(4 * p + 2) mod 4 = 2" by presburger+
  have "?out ! (4 * p) = grainChannel ((rnd ((4 * p) div 4) - 0.5) * amount) (data ! (4 * p))"
    by (rule grainLoop_channel [OF a]) (unfold d0, simp)
  then have c0: "?out ! (4 * p) = grainChannel ?n (data ! (4 * p))"
    unfolding d0 .
  have "?out ! (4 * p + 1)
          = grainChannel ((rnd ((4 * p + 1) div 4) - 0.5) * amount) (data ! (4 * p + 1))"
    by (rule grainLoop_channel [OF b]) (unfold d1, simp)
  then have c1: "?out ! (4 * p + 1) = grainChannel ?n (data ! (4 * p + 1))"
    unfolding d1 .
  have "?out ! (4 * p + 2)
          = grainChannel ((rnd ((4 * p + 2) div 4) - 0.5) * amount) (data ! (4 * p + 2))"
    by (rule grainLoop_channel [OF assms]) (unfold d2, simp)
  then have c2: "?out ! (4 * p + 2) = grainChannel ?n (data ! (4 * p + 2))"
    unfolding d2 .
  have calls: "snd (grainLoop amount rnd 0 0 data) = (length data + 3) div 4"
    using grainLoop_calls [of amount rnd 0 0 data] by simp
  show ?thesis
    unfolding Let_def using c0 c1 c2 calls unfolding grainChannel_def by blast
qed

theorem grain_same_offset_witness:
  "4 * 1 + 2 < length [10, 128, 250, 255, 0, 7, 255, 200 :: nat]
   \<and> fst (grainLoop 25 (mathRandom sampleBrowser) 0 0 [10, 128, 250, 255, 0, 7, 255, 200]) ! (4 * 1) = 0
   \<and> fst (grainLoop 25 (mathRandom sampleBrowser) 0 0 [10, 128, 250, 255, 0, 7, 255, 200]) ! (4 * 1 + 1) = 0
   \<and> fst (grainLoop 25 (mathRandom sampleBrowser) 0 0 [10, 128, 250, 255, 0, 7, 255, 200]) ! (4 * 1 + 2) = 245
   \<and> snd (grainLoop 25 (mathRandom sampleBrowser) 0 0 [10, 128, 250, 255, 0, 7, 255, 200]) = 2"
proof -
  have h: "4 * 1 + 2 < length [10, 128, 250, 255, 0, 7, 255, 200 :: nat]" by simp
  have r: "mathRandom sampleBrowser 1 = 0.1" by (simp add: sampleBrowser_def)
  show ?thesis
    using h grain_same_offset [OF h, of 25 "mathRandom sampleBrowser"]
    unfolding Let_def r by (simp add: toUint8Clamp_def)
qed

section \<open>The beautify pass\<close>

text \<open>
  C7. With \<open>beautyLevel = 0\<close> the beautify pass of either path returns the context it was
  given, bitmap and drawing state alike.
\<close>

theorem beautify_zero_noop:
  "beautyFinal br 0 c = c \<and> previewBeauty 0 c = c"
  by (simp add: beautyFinal_def previewBeauty_def)

lemma beautyFinal_painted:
  assumes "0 < level" "level \<le> 100" "hasTempCtx br"
  shows "painted (beautyFinal br level c) = painted c @
           [Paint (CanvasSrc
                    [Paint (CanvasSrc (painted c)) [] SourceOver 1 False,
                     Paint (CanvasSrc (painted c)) [Blur (3 + level / 100 * 8)] SourceOver 1 False])
                  (cfilter (cur c)) Screen (0.5 * (level / 100)) (mirror (cur c))]"
proof -
  have "0 \<le> 0.5 * (level / 100) \<and> 0.5 * (level / 100) \<le> 1" using assms by simp
  then show ?thesis using assms
    by (simp add: beautyFinal_def Let_def ctx_ops)
qed

lemma previewBeauty_painted:
  assumes "0 < level" "level \<le> 100"
  shows "painted (previewBeauty level c) = painted c @
           [Paint VideoSrc [Blur (5 + level / 100 * 12)] Screen (level / 100 * 0.6)
              (\<not> mirror (cur c))]"
proof -
  have "0 \<le> level / 100 * 0.6 \<and> level / 100 * 0.6 \<le> 1" using assms by simp
  then show ?thesis using assms
    by (simp add: previewBeauty_def Let_def ctx_ops)
qed

text \<open>
  C4. For a beauty level above 0 and at most 100, with \<open>strength = level / 100\<close>: the
  final-capture path (given the context of its temporary canvas) screens onto the canvas,
  at opacity \<open>0.5 * strength\<close>, a temporary canvas holding a copy of the canvas under a
  copy blurred by \<open>3 + strength * 8\<close> pixels; the live-preview path screens the mirrored
  video frame blurred by \<open>5 + strength * 12\<close> pixels at opacity \<open>strength * 0.6\<close>. The two
  radii differ and the two opacities differ.
\<close>

theorem beautify_constants:
  assumes "0 < level" "level \<le> 100" "hasTempCtx br"
  shows "painted (beautyFinal br level c) = painted c @
           [Paint (CanvasSrc
                    [Paint (CanvasSrc (painted c)) [] SourceOver 1 False,
                     Paint (CanvasSrc (painted c)) [Blur (3 + level / 100 * 8)] SourceOver 1 False])
                  (cfilter (cur c)) Screen (0.5 * (level / 100)) (mirror (cur c))]
       \<and> painted (previewBeauty level c) = painted c @
           [Paint VideoSrc [Blur (5 + level / 100 * 12)] Screen (level / 100 * 0.6)
              (\<not> mirror (cur c))]
       \<and> 3 + level / 100 * 8 \<noteq> 5 + level / 100 * 12
       \<and> 0.5 * (level / 100) \<noteq> level / 100 * 0.6"
proof -
  have "3 + level / 100 * 8 < 5 + level / 100 * 12" using assms by simp
  moreover have "0.5 * (level / 100) < level / 100 * 0.6" using assms by simp
  ultimately show ?thesis
    using beautyFinal_painted [OF assms] previewBeauty_painted [OF assms(1,2)] by simp
qed

theorem beautify_constants_witness:
  "(0::real) < 80 \<and> (80::real) \<le> 100 \<and> hasTempCtx sampleBrowser
   \<and> painted (beautyFinal sampleBrowser 80 newContext) =
        [Paint (CanvasSrc [Paint (CanvasSrc []) [] SourceOver 1 False,
                           Paint (CanvasSrc []) [Blur 9.4] SourceOver 1 False])
           [] Screen 0.4 False]
   \<and> painted (previewBeauty 80 newContext) = [Paint VideoSrc [Blur 14.6] Screen 0.48 True]"
proof -
  have h: "(0::real) < 80" "(80::real) \<le> 100" "hasTempCtx sampleBrowser"
    by (simp_all add: sampleBrowser_def)
  show ?thesis
    using h beautify_constants [OF h, of newContext]
    by (simp add: newContext_def defaultState_def)
qed


section \<open>Outcomes of \<open>applyVintageFilter\<close>\<close>




section \<open>Grading with \<open>ORIGINAL\<close> and no beautify\<close>

lemma gradeCanvas_original:
  "hasBaseCtx br \<Longrightarrow>
   painted (gradeCanvas br imageSrc dims ORIGINAL 0)
     = [Paint (CanvasSrc [Paint (CanvasSrc [Paint (ImageSrc imageSrc) [] SourceOver 1 False])
                            [] SourceOver 1 False])
          [] SourceOver 1 False]"
  by (simp add: gradeCanvas_def beautyFinal_def filterSwitch_def noiseAmount_def
      grainSection_def Let_def ctx_ops)

text \<open>
  C3, as stated, fails: the sample PNG loads, nothing is blurred, filtered, tinted or
  grained, and the promise resolves with what \<open>toDataURL('image/jpeg', 0.92)\<close> makes of the
  canvas, a data URL that starts \<open>data:image/jpeg\<close> whatever the encoder writes after it.
  The input starts \<open>data:image/png\<close>.
\<close>

theorem original_not_identity:
  "imageLoad sampleBrowser samplePng = Some (2, 1)
   \<and> (\<exists>payload. applyVintageFilter sampleBrowser samplePng ORIGINAL 0
          = Resolved (''data:image/jpeg;base64,'' @ payload))
   \<and> applyVintageFilter sampleBrowser samplePng ORIGINAL 0 \<noteq> Resolved samplePng"
  by (simp add: applyVintageFilter_def sampleBrowser_def toDataURL_def samplePng_def)

text \<open>
  C3, amended. When the image loads with a width and a height above 0, does not taint the
  canvas, and the contexts are available, grading with \<open>ORIGINAL\<close> and \<open>beautyLevel = 0\<close>
  applies no blur, no CSS filter, no tint and no grain: the canvas that is encoded holds
  one unfiltered, source-over, full-opacity copy of \<open>baseCanvas\<close>, which holds such a copy
  of the canvas the decoded image was drawn on. The result is that canvas encoded as JPEG
  at quality 0.92, a data URL of type \<open>image/jpeg\<close>.
\<close>

theorem original_plain_copy:
  assumes "imageLoad br imageSrc = Some dims" "0 < fst dims" "0 < snd dims"
    "\<not> tainted br imageSrc" "hasCtx br" "hasBaseCtx br"
  shows "applyVintageFilter br imageSrc ORIGINAL 0 =
     Resolved (''data:image/jpeg;base64,'' @ encodeBase64 br
       [Paint (CanvasSrc [Paint (CanvasSrc [Paint (ImageSrc imageSrc) [] SourceOver 1 False])
                            [] SourceOver 1 False])
          [] SourceOver 1 False]
       ''image/jpeg'' 0.92)"
  using assms by (simp add: applyVintageFilter_def gradeCanvas_original toDataURL_def)

theorem original_plain_copy_witness:
  "imageLoad sampleBrowser samplePng = Some (2, 1)
   \<and> 0 < fst (2 :: nat, 1 :: nat) \<and> 0 < snd (2 :: nat, 1 :: nat)
   \<and> \<not> tainted sampleBrowser samplePng \<and> hasCtx sampleBrowser \<and> hasBaseCtx sampleBrowser
   \<and> applyVintageFilter sampleBrowser samplePng ORIGINAL 0
       = Resolved ''data:image/jpeg;base64,/9j/4AAQSkZJRgABAQ''"
proof -
  have h: "imageLoad sampleBrowser samplePng = Some (2, 1)"
    "0 < fst (2 :: nat, 1 :: nat)" "0 < snd (2 :: nat, 1 :: nat)"
    "\<not> tainted sampleBrowser samplePng" "hasCtx sampleBrowser" "hasBaseCtx sampleBrowser"
    by (simp_all add: sampleBrowser_def)
  show ?thesis using h original_plain_copy [OF h] by (simp add: sampleBrowser_def)
qed

section \<open>One final capture at a time\<close>

lemma takePhoto_busy: "isShooting s \<Longrightarrow> takePhoto hasContext s = s"
  by (simp add: takePhoto_def)

lemma step_captureInv: "captureInv s \<Longrightarrow> captureInv (step e s)"
proof (cases e)
  case (ShutterClick hasContext)
  assume "captureInv s"
  then show ?thesis unfolding ShutterClick
    by (auto simp: captureInv_def inFlight_def takePhoto_def Let_def split: if_splits)
next
  case (FilterSettled r now nowStr)
  assume "captureInv s"
  then show ?thesis unfolding FilterSettled
    by (cases r) (auto simp: captureInv_def inFlight_def takePhotoFiltered_def Let_def split: if_splits)
next
  case EjectTimeout
  assume "captureInv s"
  then show ?thesis unfolding EjectTimeout
    by (auto simp: captureInv_def inFlight_def takePhotoEjected_def split: list.splits if_splits)
next
  case MotorTimeout
  assume "captureInv s"
  then show ?thesis unfolding MotorTimeout
    by (auto simp: captureInv_def inFlight_def motorTimeout_def split: if_splits)
next
  case PowerClick
  assume "captureInv s"
  then show ?thesis unfolding PowerClick
    by (auto simp: captureInv_def inFlight_def togglePower_def Let_def split: if_splits)
qed

lemma run_captureInv: "captureInv s \<Longrightarrow> captureInv (run evs s)"
  unfolding run_def by (induction evs arbitrary: s) (auto intro: step_captureInv)

text \<open>
  C8. \<open>takePhoto\<close> invoked while \<open>isShooting\<close> is set returns the state as it was: no sound,
  no timer, no call of \<open>applyVintageFilter\<close>, no photo. From a state with no capture in
  flight, after any events at most one capture is in flight, and \<open>isShooting\<close> is set
  while it is.
\<close>

theorem takePhoto_no_overlap:
  assumes "inFlight s0 = 0"
  shows "(isShooting s \<longrightarrow> takePhoto hasContext s = s)
       \<and> inFlight (run evs s0) \<le> 1
       \<and> (inFlight (run evs s0) = 1 \<longrightarrow> isShooting (run evs s0))"
proof -
  have "captureInv s0" using assms by (simp add: captureInv_def)
  then have "captureInv (run evs s0)" by (rule run_captureInv)
  then show ?thesis
    by (auto simp: captureInv_def takePhoto_busy split: if_splits)
qed

theorem takePhoto_no_overlap_witness:
  "inFlight idleCamera = 0
   \<and> inFlight (run [ShutterClick True] idleCamera) = 1
   \<and> isShooting (run [ShutterClick True] idleCamera)
   \<and> run [ShutterClick True, ShutterClick True] idleCamera = run [ShutterClick True] idleCamera"
proof -
  have h: "inFlight idleCamera = 0" by (simp add: inFlight_def idleCamera_def)
  have one: "inFlight (run [ShutterClick True] idleCamera) = 1"
    by (simp add: run_def takePhoto_def inFlight_def idleCamera_def)
  have again: "run [ShutterClick True, ShutterClick True] idleCamera
                 = takePhoto True (run [ShutterClick True] idleCamera)"
    by (simp add: run_def)
  show ?thesis
    using h one again
      takePhoto_no_overlap [OF h, of "run [ShutterClick True] idleCamera" True "[ShutterClick True]"]
    by simp
qed

section \<open>The AI caption and the user's caption\<close>

text \<open>
  C10, as stated, fails: a user who empties the caption while the AI call is pending has
  edited it, the caption is no longer the placeholder, and the AI result is written.
\<close>

theorem caption_overwritten_when_empty:
  "caption (photos (captionResolved ''1700000000000'' ''Sunday light''
       (handleUpdateCaption ''1700000000000'' ''''
          (fst (handlePhotoTaken 1280 720 samplePhoto (Some (1007, 276)) True sampleApp)))) ! 0)
     = Some ''Sunday light''
   \<and> caption (photos (handleUpdateCaption ''1700000000000'' ''''
          (fst (handlePhotoTaken 1280 720 samplePhoto (Some (1007, 276)) True sampleApp))) ! 0)
     \<noteq> Some writingPlaceholder"
  by (simp add: captionResolved_def handleUpdateCaption_def handlePhotoTaken_def
      samplePhoto_def sampleApp_def falsy_def writingPlaceholder_def Let_def)

text \<open>
  C10, amended. The AI caption is written to the photo of the capture only if its caption
  is still the placeholder written at capture time or is empty (the empty string or
  \<open>null\<close>); a caption that is neither is kept. On failure the caption is set to
  \<open>"Beautiful Moment"\<close> only if it is still the placeholder. Either way every other field of
  every photo, and the number of photos, stay as they were. (In the earlier copy of the
  application the placeholder is \<open>"Beautiful Moment"\<close> and a failure changes nothing.)
\<close>

theorem caption_guard:
  assumes "i < length (photos a)"
  shows "(let p = photos a ! i;
              q = photos (captionResolved newId aiCaption a) ! i;
              r = photos (captionFailed newId msg a) ! i;
              q' = photos (captionResolvedEarlier newId aiCaption a) ! i
          in length (photos (captionResolved newId aiCaption a)) = length (photos a)
           \<and> length (photos (captionFailed newId msg a)) = length (photos a)
           \<and> q = p\<lparr>caption := caption q\<rparr>
           \<and> r = p\<lparr>caption := caption r\<rparr>
           \<and> caption q =
               (if photoId p = newId
                   \<and> (caption p = Some writingPlaceholder \<or> caption p = None \<or> caption p = Some [])
                then Some aiCaption else caption p)
           \<and> caption r =
               (if photoId p = newId \<and> caption p = Some writingPlaceholder
                then Some defaultCaption else caption p)
           \<and> q' = p\<lparr>caption := caption q'\<rparr>
           \<and> caption q' =
               (if photoId p = newId
                   \<and> (caption p = Some defaultCaption \<or> caption p = None \<or> caption p = Some [])
                then Some aiCaption else caption p))
       \<and> captionFailedEarlier a = a
       \<and> caption (snd (handlePhotoTaken iw ih newPhotoData startPos True a))
            = Some writingPlaceholder"
  using assms
  by (auto simp: captionResolved_def captionFailed_def captionResolvedEarlier_def
      captionFailedEarlier_def handlePhotoTaken_def Let_def
      falsy_def initialCaption_def split: option.splits)

theorem caption_guard_witness:
  "0 < length (photos (handleUpdateCaption ''1700000000000'' ''Grandma''
          (fst (handlePhotoTaken 1280 720 samplePhoto (Some (1007, 276)) True sampleApp))))
   \<and> caption (photos (captionResolved ''1700000000000'' ''Sunday light''
        (handleUpdateCaption ''1700000000000'' ''Grandma''
          (fst (handlePhotoTaken 1280 720 samplePhoto (Some (1007, 276)) True sampleApp)))) ! 0)
      = Some ''Grandma''
   \<and> caption (photos (captionFailed ''1700000000000'' ''Network Error: Check URL/CORS''
          (fst (handlePhotoTaken 1280 720 samplePhoto (Some (1007, 276)) True sampleApp))) ! 0)
      = Some ''Beautiful Moment''"
proof -
  let ?a0 = "fst (handlePhotoTaken 1280 720 samplePhoto (Some (1007, 276)) True sampleApp)"
  let ?a1 = "handleUpdateCaption ''1700000000000'' ''Grandma'' ?a0"
  have h1: "0 < length (photos ?a1)"
    by (simp add: handleUpdateCaption_def handlePhotoTaken_def sampleApp_def Let_def)
  have h0: "0 < length (photos ?a0)"
    by (simp add: handlePhotoTaken_def sampleApp_def Let_def)
  have p1: "photoId (photos ?a1 ! 0) = ''1700000000000'' \<and> caption (photos ?a1 ! 0) = Some ''Grandma''"
    by (simp add: handleUpdateCaption_def handlePhotoTaken_def sampleApp_def samplePhoto_def Let_def)
  have p0: "photoId (photos ?a0 ! 0) = ''1700000000000''
            \<and> caption (photos ?a0 ! 0) = Some writingPlaceholder"
    by (simp add: handlePhotoTaken_def sampleApp_def samplePhoto_def Let_def initialCaption_def)
  have np: "Some ''Grandma'' \<noteq> Some writingPlaceholder"
    by (simp add: writingPlaceholder_def)
  show ?thesis
    using h1 p1 p0 np
      caption_guard [OF h1, of "''1700000000000''" "''Sunday light''" "''x''" 0 0 samplePhoto None]
      caption_guard [OF h0, of "''1700000000000''" "''y''" "''Network Error: Check URL/CORS''" 0 0 samplePhoto None]
    unfolding Let_def by (simp add: defaultCaption_def)
qed

section \<open>The recipes of the two paths\<close>

lemma previewBeauty_no_pixels:
  "list_ex isPixels (painted (previewBeauty level c)) = list_ex isPixels (painted c)"
  by (simp add: previewBeauty_def Let_def ctx_ops)

lemma previewSwitch_painted: "painted (previewSwitch f c) = painted c"
  by (cases f) (simp_all add: previewSwitch_def ctx_ops)

lemma previewLayers_no_pixels:
  "list_ex isPixels (painted (previewLayers f c)) = list_ex isPixels (painted c)"
  by (cases f) (simp_all add: previewLayers_def Let_def ctx_ops)

lemma restore_painted: "painted (restore c) = painted c"
  by (simp add: restore_def split: list.splits)

lemma renderPreview_no_pixels:
  "list_ex isPixels (painted (renderPreview cam ctxOk resized c)) \<Longrightarrow> list_ex isPixels (painted c)"
  by (simp add: renderPreview_def Let_def restore_painted previewLayers_no_pixels
      previewSwitch_painted previewBeauty_no_pixels
      setFilter_def setGCO_def setAlpha_def save_def flipHorizontal_def drawImage_def
      paintWith_def newContext_def split: if_splits)

lemma previewGrain_never: "\<not> previewGrain cam ctxOk resized"
  using renderPreview_no_pixels [of cam ctxOk resized newContext]
  by (auto simp: previewGrain_def newContext_def)

lemma noiseAmount_pos: "noiseAmount f > 0 \<longleftrightarrow> f \<noteq> ORIGINAL"
  by (simp add: noiseAmount_def)

lemma preview_original_recipe:
  assumes "videoRef cam" "previewCanvasRef cam" "isCameraOn cam" "falsy (error cam)"
    "readyState cam = 4" "activeFilter cam = ORIGINAL"
  shows "previewRecipe cam True resized = [(Frame, [], SourceOver, 1)]"
  using assms
  by (simp add: previewRecipe_def renderPreview_def previewBeauty_def
      previewSwitch_def previewLayers_def Let_def ctx_ops)

lemma final_original_recipe: "finalRecipe ORIGINAL w h = [(Frame, [], SourceOver, 1)]"
  by (simp add: finalRecipe_def filterSwitch_def ctx_ops)

text \<open>
  Where the two copies of the presets part, on the example of \<open>RETRO_CLASSIC\<close>: the preview
  draws the frame under no filter, sets the preset's filter afterwards and paints the tint
  under it; the final capture draws the frame under the filter and paints the tint under
  none.
\<close>

lemma preset_copies_disagree:
  "previewRecipe (idleCamera\<lparr>activeFilter := RETRO_CLASSIC\<rparr>) True False
     = [(Frame, [], SourceOver, 1),
        (Tint (Solid (Rgba 255 190 100 0.3)),
         [Sepia 0.4, Saturate 1.4, Contrast 1.1, Brightness 1.05], Overlay, 1)]
   \<and> finalRecipe RETRO_CLASSIC w h
     = [(Frame, [Sepia 0.4, Saturate 1.4, Contrast 1.1, Brightness 1.05], SourceOver, 1),
        (Tint (Solid (Rgba 255 190 100 0.3)), [], Overlay, 1)]"
  by (simp add: previewRecipe_def finalRecipe_def renderPreview_def previewBeauty_def
      previewSwitch_def previewLayers_def filterSwitch_def Let_def ctx_ops idleCamera_def
      falsy_def)

text \<open>
  C1, as stated, fails: for \<open>RETRO_CLASSIC\<close> the final-capture path writes grain into the
  pixels and a preview frame writes none.
\<close>

theorem recipes_differ_in_grain:
  "\<not> previewGrain (idleCamera\<lparr>activeFilter := RETRO_CLASSIC\<rparr>) True False
   \<and> finalGrain sampleBrowser samplePng (2, 1) RETRO_CLASSIC 80
   \<and> \<not> sameRecipe sampleBrowser samplePng (2, 1)
         (idleCamera\<lparr>activeFilter := RETRO_CLASSIC\<rparr>) True False"
proof -
  have g: "finalGrain sampleBrowser samplePng (2, 1) RETRO_CLASSIC 80"
    by (simp add: finalGrain_iff noiseAmount_def)
  have p: "\<not> previewGrain (idleCamera\<lparr>activeFilter := RETRO_CLASSIC\<rparr>) True False"
    by (rule previewGrain_never)
  show ?thesis using g p by (simp add: sameRecipe_def idleCamera_def)
qed

text \<open>
  C1, amended. The grain pass belongs to the final-capture path alone: it writes grain
  for every preset but \<open>ORIGINAL\<close>, and a preview frame never writes pixel data. For
  \<open>ORIGINAL\<close> the two paths apply the same recipe: each draws the frame once, under no
  filter, source-over at full opacity, and paints no tint. (What the two copies do for the
  other presets is not part of this statement.)
\<close>

theorem recipes_compared:
  "\<not> previewGrain cam ctxOk resized
   \<and> (list_ex isPixels (painted (renderPreview cam ctxOk resized c)) \<longrightarrow> list_ex isPixels (painted c))
   \<and> (finalGrain br imageSrc dims f level \<longleftrightarrow> f \<noteq> ORIGINAL)
   \<and> (videoRef cam \<and> previewCanvasRef cam \<and> isCameraOn cam \<and> falsy (error cam)
        \<and> readyState cam = 4 \<and> activeFilter cam = ORIGINAL \<longrightarrow>
        previewRecipe cam True resized = [(Frame, [], SourceOver, 1)]
        \<and> finalRecipe (activeFilter cam) w h = [(Frame, [], SourceOver, 1)])"
  using renderPreview_no_pixels [of cam ctxOk resized c] previewGrain_never [of cam ctxOk resized]
    finalGrain_iff [of br imageSrc dims f level] noiseAmount_pos [of f]
    preview_original_recipe [of cam resized] final_original_recipe [of w h]
  by auto

theorem recipes_compared_witness:
  "(videoRef (idleCamera\<lparr>activeFilter := ORIGINAL\<rparr>)
      \<and> previewCanvasRef (idleCamera\<lparr>activeFilter := ORIGINAL\<rparr>)
      \<and> isCameraOn (idleCamera\<lparr>activeFilter := ORIGINAL\<rparr>)
      \<and> falsy (error (idleCamera\<lparr>activeFilter := ORIGINAL\<rparr>))
      \<and> readyState (idleCamera\<lparr>activeFilter := ORIGINAL\<rparr>) = 4
      \<and> activeFilter (idleCamera\<lparr>activeFilter := ORIGINAL\<rparr>) = ORIGINAL)
   \<and> previewRecipe (idleCamera\<lparr>activeFilter := ORIGINAL\<rparr>) True False
       = finalRecipe ORIGINAL 2 1
   \<and> \<not> list_ex isPixels (painted newContext)
   \<and> \<not> list_ex isPixels
        (painted (renderPreview (idleCamera\<lparr>activeFilter := ORIGINAL\<rparr>) True False newContext))
   \<and> finalGrain sampleBrowser samplePng (2, 1) CINE_MOODY 80
   \<and> \<not> finalGrain sampleBrowser samplePng (2, 1) ORIGINAL 80"
proof -
  let ?cam = "idleCamera\<lparr>activeFilter := ORIGINAL\<rparr>"
  note orig = recipes_compared [of ?cam True False newContext sampleBrowser samplePng "(2, 1)"
      ORIGINAL 80 2 1]
  note moody = recipes_compared [of ?cam True False newContext sampleBrowser samplePng "(2, 1)"
      CINE_MOODY 80 2 1]
  have h: "videoRef ?cam \<and> previewCanvasRef ?cam \<and> isCameraOn ?cam \<and> falsy (error ?cam)
      \<and> readyState ?cam = 4 \<and> activeFilter ?cam = ORIGINAL"
    by (simp add: idleCamera_def falsy_def)
  have eq: "previewRecipe ?cam True False = finalRecipe ORIGINAL 2 1"
    using orig h by simp
  have np: "\<not> list_ex isPixels (painted newContext)" by (simp add: newContext_def)
  have nq: "\<not> list_ex isPixels (painted (renderPreview ?cam True False newContext))"
    using orig np by blast
  have g: "finalGrain sampleBrowser samplePng (2, 1) CINE_MOODY 80"
    using moody by simp
  have ng: "\<not> finalGrain sampleBrowser samplePng (2, 1) ORIGINAL 80"
    using orig by simp
  show ?thesis using h eq np nq g ng by blast
qed

end
